theory Spec2Isabelle
  imports Main
begin

section \<open>Data model (types.ts)\<close>

text \<open>
  The five entity shapes of the committee manager. Every stored row carries its IndexedDB
  key in the field \<open>id\<close> (all object stores are created with \<open>keyPath: 'id'\<close> and
  \<open>autoIncrement: true\<close>), so a stored row has a numeric id; the optional fields
  \<open>pairId\<close> and \<open>paidOn\<close> are options. A calendar date string \<open>YYYY-MM-DD\<close>, as the
  date inputs produce it, is held as the triple (year, month 1..12, day).
\<close>

type_synonym isoDate = "int \<times> int \<times> int"

datatype ShareType = Full | Half

datatype PaymentStatus = Paid | Pending | Late

datatype PayerType = PT_member | PT_pair

record Committee =
  c_id :: nat
  c_name :: string
  c_contribution :: int
  c_startDate :: isoDate
  c_allowHalfShare :: bool

record Member =
  m_id :: nat
  m_committeeId :: nat
  m_name :: string
  m_phone :: string
  m_shareType :: ShareType
  m_pairId :: "nat option"

record Pair =
  p_id :: nat
  p_committeeId :: nat
  p_member1Id :: nat
  p_member2Id :: nat
  p_name :: string

record Payment =
  pay_id :: nat
  pay_committeeId :: nat
  pay_payerId :: nat
  pay_payerType :: PayerType
  pay_month :: nat
  pay_status :: PaymentStatus
  pay_paidOn :: "isoDate option"

record Draw =
  d_id :: nat
  d_committeeId :: nat
  d_month :: nat
  d_winnerId :: nat
  d_winnerType :: PayerType
  d_drawDate :: isoDate

text \<open>
  JavaScript truthiness of an optional number, as the guards \<open>!m.pairId\<close>,
  \<open>member.pairId\<close>, \<open>payment.id\<close> and \<open>!committee.id\<close> use it: \<open>undefined\<close> and
  \<open>0\<close> are falsy.
\<close>

definition truthy :: "nat \<Rightarrow> bool" where
  "truthy n = (n \<noteq> 0)"

definition truthyOpt :: "nat option \<Rightarrow> bool" where
  "truthyOpt v = (case v of None \<Rightarrow> False | Some n \<Rightarrow> truthy n)"

section \<open>The entity store (services/database.ts)\<close>

text \<open>
  The database: one list of rows per object store, held in ascending key order (the order
  in which IndexedDB iterates a store), and the key generator of each store that the code
  adds to without an explicit key.
\<close>

record Store =
  committees :: "Committee list"
  members :: "Member list"
  pairs :: "Pair list"
  payments :: "Payment list"
  draws :: "Draw list"
  committeeKey :: nat
  memberKey :: nat
  pairKey :: nat
  paymentKey :: nat
  drawKey :: nat

text \<open>\<open>store.get(key)\<close>: the row with that key, if any.\<close>

definition get_row :: "('a \<Rightarrow> nat) \<Rightarrow> nat \<Rightarrow> 'a list \<Rightarrow> 'a option" where
  "get_row key k rows = find (\<lambda>r. key r = k) rows"

text \<open>\<open>store.delete(key)\<close>: removes the row with that key; no effect when it is absent.\<close>

definition delete_row :: "('a \<Rightarrow> nat) \<Rightarrow> nat \<Rightarrow> 'a list \<Rightarrow> 'a list" where
  "delete_row key k rows = filter (\<lambda>r. key r \<noteq> k) rows"

text \<open>
  \<open>store.put(item)\<close> (the generic \<open>update\<close>): replaces the row that has the item's key,
  or inserts the item at its place in key order.
\<close>

fun put_row :: "('a \<Rightarrow> nat) \<Rightarrow> 'a \<Rightarrow> 'a list \<Rightarrow> 'a list" where
  "put_row key r [] = [r]"
| "put_row key r (x # xs) =
     (if key x = key r then r # xs
      else if key r < key x then r # x # xs
      else x # put_row key r xs)"

text \<open>
  \<open>index.getAll(committeeId)\<close>: the rows of one committee, in key order.
\<close>

definition getMembersByCommittee :: "Store \<Rightarrow> nat \<Rightarrow> Member list" where
  "getMembersByCommittee s cid = filter (\<lambda>m. m_committeeId m = cid) (members s)"

definition getPairsByCommittee :: "Store \<Rightarrow> nat \<Rightarrow> Pair list" where
  "getPairsByCommittee s cid = filter (\<lambda>p. p_committeeId p = cid) (pairs s)"

definition getPaymentsByCommittee :: "Store \<Rightarrow> nat \<Rightarrow> Payment list" where
  "getPaymentsByCommittee s cid = filter (\<lambda>p. pay_committeeId p = cid) (payments s)"

definition getDrawsByCommittee :: "Store \<Rightarrow> nat \<Rightarrow> Draw list" where
  "getDrawsByCommittee s cid = filter (\<lambda>d. d_committeeId d = cid) (draws s)"




definition addCommittee :: "Committee \<Rightarrow> Store \<Rightarrow> nat \<times> Store" where
  "addCommittee c s =
     (committeeKey s,
      s\<lparr>committees := committees s @ [c\<lparr>c_id := committeeKey s\<rparr>],
        committeeKey := Suc (committeeKey s)\<rparr>)"

text \<open>
  The \<open>update\<close> of a collection is \<open>put\<close> on its store. A put under a key at or
  above the store's key generator moves the generator past that key.
\<close>

definition updateCommittee :: "Committee \<Rightarrow> Store \<Rightarrow> Store" where
  "updateCommittee c s =
     s\<lparr>committees := put_row c_id c (committees s),
       committeeKey := max (committeeKey s) (Suc (c_id c))\<rparr>"





section \<open>Committee ledger (App.tsx)\<close>

text \<open>
  \<open>effectiveDuration\<close> of \<open>CommitteeDetail\<close>, computed from the committee's own members
  and pairs (the arrays are never absent, so the guard \<open>!members || !pairs\<close> is dead), and
  the duration the \<open>Dashboard\<close> computes per committee from all members and all pairs.
\<close>

definition effectiveDuration :: "Member list \<Rightarrow> Pair list \<Rightarrow> nat" where
  "effectiveDuration ms ps =
     (let fullMembersCount = length (filter (\<lambda>m. m_shareType m = Full) ms);
          pairsCount = length ps
      in fullMembersCount + pairsCount)"

definition dashboardDuration :: "Member list \<Rightarrow> Pair list \<Rightarrow> nat \<Rightarrow> nat" where
  "dashboardDuration ms ps cid =
     (let committeeFullMembersCount =
            length (filter (\<lambda>m. m_committeeId m = cid \<and> m_shareType m = Full) ms);
          committeePairsCount = length (filter (\<lambda>p. p_committeeId p = cid) ps)
      in committeeFullMembersCount + committeePairsCount)"

text \<open>
  The number of Full-share members of a committee and the number of its pairs, counted as
  sets of rows of the store, as the specification words the duration.
\<close>

definition countFullMembers :: "Store \<Rightarrow> nat \<Rightarrow> nat" where
  "countFullMembers s cid =
     card {m \<in> set (members s). m_committeeId m = cid \<and> m_shareType m = Full}"

definition countPairs :: "Store \<Rightarrow> nat \<Rightarrow> nat" where
  "countPairs s cid = card {p \<in> set (pairs s). p_committeeId p = cid}"

text \<open>
  The shareholders of \<open>DrawManager\<close>: the Full-share members, then the pairs, each as
  (id, type, name).
\<close>

record Shareholder =
  sh_id :: nat
  sh_type :: PayerType
  sh_name :: string

definition shareholders :: "Member list \<Rightarrow> Pair list \<Rightarrow> Shareholder list" where
  "shareholders ms ps =
     map (\<lambda>m. \<lparr>sh_id = m_id m, sh_type = PT_member, sh_name = m_name m\<rparr>)
         (filter (\<lambda>m. m_shareType m = Full) ms)
     @ map (\<lambda>p. \<lparr>sh_id = p_id p, sh_type = PT_pair, sh_name = p_name p\<rparr>) ps"

section \<open>Draw eligibility (App.tsx, DrawManager)\<close>

definition qualifying :: "nat \<Rightarrow> Payment \<Rightarrow> bool" where
  "qualifying month p =
     (pay_month p = month \<and> (pay_status p = Paid \<or> pay_status p = Late))"

definition canConductDraw ::
  "Member list \<Rightarrow> Pair list \<Rightarrow> Payment list \<Rightarrow> Draw list \<Rightarrow> nat \<Rightarrow> bool" where
  "canConductDraw ms ps pays ds month =
     (let totalShareholders = length (shareholders ms ps)
      in if totalShareholders = 0 then False
         else
           (let paymentsForMonth = length (filter (qualifying month) pays);
                hasDraw = list_ex (\<lambda>d. d_month d = month) ds
            in paymentsForMonth = totalShareholders \<and> \<not> hasDraw))"

text \<open>
  The condition (a) of the specification, worded per shareholder: every shareholder has a
  payment row of the given month whose status is Paid or Late.
\<close>

definition everyShareholderPaid :: "Shareholder list \<Rightarrow> Payment list \<Rightarrow> nat \<Rightarrow> bool" where
  "everyShareholderPaid shs pays month =
     list_all (\<lambda>sh. list_ex (\<lambda>p. pay_payerId p = sh_id sh \<and> pay_payerType p = sh_type sh
                                  \<and> qualifying month p) pays) shs"

text \<open>
  The keys \<open>`${type}-${id}`\<close> under which \<open>eligibleForDraw\<close> compares winners and
  shareholders: the type's name, a dash, and the id in decimal.
\<close>

definition digitChar :: "nat \<Rightarrow> char" where
  "digitChar d = char_of (48 + d)"

fun showNat :: "nat \<Rightarrow> string" where
  "showNat n = (if n < 10 then [digitChar n] else showNat (n div 10) @ [digitChar (n mod 10)])"

definition payerTypeName :: "PayerType \<Rightarrow> string" where
  "payerTypeName t = (case t of PT_member \<Rightarrow> ''member'' | PT_pair \<Rightarrow> ''pair'')"

definition shareholderKey :: "PayerType \<Rightarrow> nat \<Rightarrow> string" where
  "shareholderKey t i = payerTypeName t @ ''-'' @ showNat i"

definition eligibleForDraw ::
  "Draw list \<Rightarrow> Shareholder list \<Rightarrow> nat option \<Rightarrow> Shareholder list" where
  "eligibleForDraw ds shs selectedMonth =
     (case selectedMonth of
        None \<Rightarrow> []
      | Some sm \<Rightarrow>
          (let otherMonthsWinners =
                 map (\<lambda>d. shareholderKey (d_winnerType d) (d_winnerId d))
                     (filter (\<lambda>d. d_month d \<noteq> sm) ds)
           in filter (\<lambda>sh. \<not> List.member otherMonthsWinners
                                 (shareholderKey (sh_type sh) (sh_id sh))) shs))"

section \<open>Cascading deletes (services/database.ts)\<close>

text \<open>
  A rejected promise carries \<open>new Error(message)\<close>. An operation returns its outcome
  together with the store it leaves behind; an aborted transaction leaves the store as it
  was.
\<close>

datatype error = Error string

definition deleteMember :: "nat \<Rightarrow> Store \<Rightarrow> (error + unit) \<times> Store" where
  "deleteMember memberId s =
     (case get_row m_id memberId (members s) of
        None \<Rightarrow> (Inl (Error ''Member not found''), s)
      | Some member \<Rightarrow>
          if truthyOpt (m_pairId member)
          then (Inl (Error ''Cannot delete a member that is part of a pair. Delete the pair instead.''), s)
          else (Inr (),
                s\<lparr>members := delete_row m_id memberId (members s),
                  payments := filter (\<lambda>p. \<not> (pay_payerId p = memberId \<and> pay_payerType p = PT_member))
                                     (payments s)\<rparr>))"

definition deletePair :: "nat \<Rightarrow> Store \<Rightarrow> (error + unit) \<times> Store" where
  "deletePair pairId s =
     (case get_row p_id pairId (pairs s) of
        None \<Rightarrow> (Inl (Error ''Pair not found''), s)
      | Some pair \<Rightarrow>
          (Inr (),
           s\<lparr>members := delete_row m_id (p_member2Id pair)
                          (delete_row m_id (p_member1Id pair) (members s)),
             pairs := delete_row p_id pairId (pairs s),
             payments := filter (\<lambda>p. \<not> (pay_payerId p = pairId \<and> pay_payerType p = PT_pair))
                                (payments s)\<rparr>))"

section \<open>Pairing (App.tsx, MemberForm)\<close>


section \<open>Payment status and recording (App.tsx, PaymentTracker)\<close>

text \<open>
  The \<open>Date\<close> arithmetic of the JavaScript runtime, after ECMA-262: a time value is a
  number of milliseconds since 1970-01-01T00:00Z; \<open>MakeDay\<close> normalises a month index
  outside 0..11 into the year; local time is UTC plus the offset \<open>tza\<close> of the zone the
  browser runs in (milliseconds, positive east of Greenwich), taken here as a fixed
  offset.
\<close>

definition msPerDay :: int where
  "msPerDay = 86400000"

definition DayFromYear :: "int \<Rightarrow> int" where
  "DayFromYear y =
     365 * (y - 1970) + (y - 1969) div 4 - (y - 1901) div 100 + (y - 1601) div 400"

definition InLeapYear :: "int \<Rightarrow> bool" where
  "InLeapYear y =
     (if y mod 4 \<noteq> 0 then False else if y mod 100 \<noteq> 0 then True else y mod 400 = 0)"

definition monthStart :: "int \<Rightarrow> bool \<Rightarrow> int" where
  "monthStart mn leap =
     [0, 31, 59, 90, 120, 151, 181, 212, 243, 273, 304, 334] ! nat mn
     + (if leap \<and> 2 \<le> mn then 1 else 0)"

definition MakeDay :: "int \<Rightarrow> int \<Rightarrow> int \<Rightarrow> int" where
  "MakeDay year month date =
     (let ym = year + month div 12; mn = month mod 12
      in DayFromYear ym + monthStart mn (InLeapYear ym) + date - 1)"

text \<open>
  The year, month index (0..11) and day of month of a day number, by the closed form of
  the proleptic Gregorian calendar over 400-year eras that begin on 1 March.
\<close>

definition civilFromDay :: "int \<Rightarrow> int \<times> int \<times> int" where
  "civilFromDay day =
     (let z = day + 719468;
          era = z div 146097;
          doe = z - era * 146097;
          yoe = (doe - doe div 1460 + doe div 36524 - doe div 146096) div 365;
          doy = doe - (365 * yoe + yoe div 4 - yoe div 100);
          mp = (5 * doy + 2) div 153;
          d = doy - (153 * mp + 2) div 5 + 1;
          m = (if mp < 10 then mp + 3 else mp - 9);
          y = yoe + era * 400 + (if m \<le> 2 then 1 else 0)
      in (y, m - 1, d))"

definition YearFromTime :: "int \<Rightarrow> int" where
  "YearFromTime t = fst (civilFromDay (t div msPerDay))"

definition MonthFromTime :: "int \<Rightarrow> int" where
  "MonthFromTime t = fst (snd (civilFromDay (t div msPerDay)))"

text \<open>
  \<open>new Date(year, monthIndex, day)\<close>: local midnight of that day (a year 0..99 is read
  as 1900 + year). \<open>new Date("YYYY-MM-DD")\<close>: a date-only string is read as UTC midnight.
  \<open>getFullYear()\<close> and \<open>getMonth()\<close> read the local year and month index.
\<close>

definition newDate_ymd :: "int \<Rightarrow> int \<Rightarrow> int \<Rightarrow> int \<Rightarrow> int" where
  "newDate_ymd tza year monthIndex day =
     (let yr = (if 0 \<le> year \<and> year \<le> 99 then 1900 + year else year)
      in MakeDay yr monthIndex day * msPerDay - tza)"

definition newDate_iso :: "isoDate \<Rightarrow> int" where
  "newDate_iso ds = (case ds of (y, m, d) \<Rightarrow> MakeDay y (m - 1) d * msPerDay)"

definition getFullYear :: "int \<Rightarrow> int \<Rightarrow> int" where
  "getFullYear tza t = YearFromTime (t + tza)"

definition getMonth :: "int \<Rightarrow> int \<Rightarrow> int" where
  "getMonth tza t = MonthFromTime (t + tza)"

text \<open>
  The status \<open>handleSavePayment\<close> computes for a payment dated \<open>paidOnDate\<close> of month
  \<open>month\<close> of a committee that starts on \<open>startDate\<close>.
\<close>

definition paymentStatus :: "int \<Rightarrow> isoDate \<Rightarrow> nat \<Rightarrow> isoDate \<Rightarrow> PaymentStatus" where
  "paymentStatus tza startDate month paidOnDate =
     (case paidOnDate of (pYear, pMonth, pDay) \<Rightarrow>
        (let paymentDate = newDate_ymd tza pYear (pMonth - 1) pDay;
             committeeStartDate = newDate_iso startDate;
             dueDate = newDate_ymd tza (getFullYear tza committeeStartDate)
                                   (getMonth tza committeeStartDate + int month) 10
         in if paymentDate > dueDate then Late else Paid))"






section \<open>Editing a committee (App.tsx, CommitteeForm)\<close>

text \<open>
  The form's state, the effect that fills it from \<open>committeeToEdit\<close>, the change events of
  its four controls, and the submit handler. The checkbox of \<open>allowHalfShare\<close> is rendered
  with \<open>disabled={!!committeeToEdit}\<close>, and a disabled control fires no change event.
\<close>

record CommitteeFormState =
  f_name :: string
  f_contribution :: int
  f_startDate :: isoDate
  f_allowHalfShare :: bool

datatype CommitteeFormEvent =
  NameChanged string
| ContributionChanged int
| StartDateChanged isoDate
| AllowHalfShareChanged bool

definition CommitteeForm_init :: "isoDate \<Rightarrow> Committee option \<Rightarrow> CommitteeFormState" where
  "CommitteeForm_init today committeeToEdit =
     (case committeeToEdit of
        Some c \<Rightarrow> \<lparr>f_name = c_name c, f_contribution = c_contribution c,
                   f_startDate = c_startDate c, f_allowHalfShare = c_allowHalfShare c\<rparr>
      | None \<Rightarrow> \<lparr>f_name = [], f_contribution = 1000, f_startDate = today,
                 f_allowHalfShare = False\<rparr>)"

fun CommitteeForm_change ::
  "Committee option \<Rightarrow> CommitteeFormState \<Rightarrow> CommitteeFormEvent \<Rightarrow> CommitteeFormState" where
  "CommitteeForm_change committeeToEdit st (NameChanged v) = st\<lparr>f_name := v\<rparr>"
| "CommitteeForm_change committeeToEdit st (ContributionChanged v) = st\<lparr>f_contribution := v\<rparr>"
| "CommitteeForm_change committeeToEdit st (StartDateChanged v) = st\<lparr>f_startDate := v\<rparr>"
| "CommitteeForm_change committeeToEdit st (AllowHalfShareChanged v) =
     (if committeeToEdit \<noteq> None then st else st\<lparr>f_allowHalfShare := v\<rparr>)"

definition CommitteeForm_handleSubmit ::
  "Committee option \<Rightarrow> CommitteeFormState \<Rightarrow> Store \<Rightarrow> Store" where
  "CommitteeForm_handleSubmit committeeToEdit st s =
     (if f_name st = [] \<or> f_contribution st \<le> 0 then s
      else case committeeToEdit of
             Some c \<Rightarrow>
               updateCommittee (c\<lparr>c_name := f_name st, c_contribution := f_contribution st,
                                  c_startDate := f_startDate st,
                                  c_allowHalfShare := f_allowHalfShare st\<rparr>) s
           | None \<Rightarrow>
               snd (addCommittee \<lparr>c_id = 0, c_name = f_name st,
                                  c_contribution = f_contribution st,
                                  c_startDate = f_startDate st,
                                  c_allowHalfShare = f_allowHalfShare st\<rparr> s))"

text \<open>
  An edit session: the form is opened on a committee, receives change events, and is
  submitted.
\<close>

definition editCommittee :: "isoDate \<Rightarrow> Committee \<Rightarrow> CommitteeFormEvent list \<Rightarrow> Store \<Rightarrow> Store" where
  "editCommittee today c evs s =
     CommitteeForm_handleSubmit (Some c)
       (foldl (CommitteeForm_change (Some c)) (CommitteeForm_init today (Some c)) evs) s"

text \<open>
  A run of edit sessions: each names the committee by id, as the dashboard opens the form
  on a committee of the list it fetched from the store.
\<close>

fun editSessions ::
  "isoDate \<Rightarrow> (nat \<times> CommitteeFormEvent list) list \<Rightarrow> Store \<Rightarrow> Store" where
  "editSessions today [] s = s"
| "editSessions today ((k, evs) # rest) s =
     editSessions today rest
       (case get_row c_id k (committees s) of
          None \<Rightarrow> s
        | Some c \<Rightarrow> editCommittee today c evs s)"

section \<open>Example states\<close>

text \<open>
  A small database: committee 1 with the Full-share member Ann and the pair of the
  Half-share members Bob and Cy, committee 2 with the Full-share member Dee; payments of
  Ann, of the pair (two) and of Dee, and the draw of month 0 of committee 1, won by the
  pair.
\<close>

definition ex_committee :: Committee where
  "ex_committee = \<lparr>c_id = 1, c_name = ''Alpha'', c_contribution = 1000,
                    c_startDate = (2024, 1, 1), c_allowHalfShare = True\<rparr>"

definition ex_committee2 :: Committee where
  "ex_committee2 = \<lparr>c_id = 2, c_name = ''Beta'', c_contribution = 500,
                     c_startDate = (2024, 3, 1), c_allowHalfShare = False\<rparr>"

definition ex_ann :: Member where
  "ex_ann = \<lparr>m_id = 1, m_committeeId = 1, m_name = ''Ann'', m_phone = ''0300'',
              m_shareType = Full, m_pairId = None\<rparr>"

definition ex_bob :: Member where
  "ex_bob = \<lparr>m_id = 2, m_committeeId = 1, m_name = ''Bob'', m_phone = ''0301'',
              m_shareType = Half, m_pairId = Some 1\<rparr>"

definition ex_cy :: Member where
  "ex_cy = \<lparr>m_id = 3, m_committeeId = 1, m_name = ''Cy'', m_phone = ''0302'',
             m_shareType = Half, m_pairId = Some 1\<rparr>"

definition ex_dee :: Member where
  "ex_dee = \<lparr>m_id = 4, m_committeeId = 2, m_name = ''Dee'', m_phone = ''0303'',
              m_shareType = Full, m_pairId = None\<rparr>"

definition ex_eve :: Member where
  "ex_eve = \<lparr>m_id = 2, m_committeeId = 1, m_name = ''Eve'', m_phone = ''0304'',
              m_shareType = Half, m_pairId = None\<rparr>"

definition ex_pair :: Pair where
  "ex_pair = \<lparr>p_id = 1, p_committeeId = 1, p_member1Id = 2, p_member2Id = 3,
               p_name = ''Bob & Cy''\<rparr>"

definition ex_pay_ann :: Payment where
  "ex_pay_ann = \<lparr>pay_id = 1, pay_committeeId = 1, pay_payerId = 1, pay_payerType = PT_member,
                  pay_month = 0, pay_status = Paid, pay_paidOn = Some (2024, 1, 5)\<rparr>"

definition ex_pay_pair :: Payment where
  "ex_pay_pair = \<lparr>pay_id = 2, pay_committeeId = 1, pay_payerId = 1, pay_payerType = PT_pair,
                   pay_month = 0, pay_status = Late, pay_paidOn = Some (2024, 1, 12)\<rparr>"

definition ex_pay_dee :: Payment where
  "ex_pay_dee = \<lparr>pay_id = 3, pay_committeeId = 2, pay_payerId = 4, pay_payerType = PT_member,
                  pay_month = 0, pay_status = Paid, pay_paidOn = Some (2024, 3, 2)\<rparr>"

definition ex_pay_pair1 :: Payment where
  "ex_pay_pair1 = \<lparr>pay_id = 4, pay_committeeId = 1, pay_payerId = 1, pay_payerType = PT_pair,
                    pay_month = 1, pay_status = Paid, pay_paidOn = Some (2024, 2, 9)\<rparr>"

definition ex_pay_stray :: Payment where
  "ex_pay_stray = \<lparr>pay_id = 2, pay_committeeId = 1, pay_payerId = 9, pay_payerType = PT_member,
                    pay_month = 0, pay_status = Paid, pay_paidOn = Some (2024, 1, 6)\<rparr>"

definition ex_draw :: Draw where
  "ex_draw = \<lparr>d_id = 1, d_committeeId = 1, d_month = 0, d_winnerId = 1, d_winnerType = PT_pair,
               d_drawDate = (2024, 1, 15)\<rparr>"

definition ex_draw_ann :: Draw where
  "ex_draw_ann = \<lparr>d_id = 2, d_committeeId = 1, d_month = 1, d_winnerId = 1,
                   d_winnerType = PT_member, d_drawDate = (2024, 2, 15)\<rparr>"

definition ex_sh_ann :: Shareholder where
  "ex_sh_ann = \<lparr>sh_id = 1, sh_type = PT_member, sh_name = ''Ann''\<rparr>"

definition ex_sh_pair :: Shareholder where
  "ex_sh_pair = \<lparr>sh_id = 1, sh_type = PT_pair, sh_name = ''Bob & Cy''\<rparr>"

definition ex_store :: Store where
  "ex_store = \<lparr>committees = [ex_committee, ex_committee2],
                members = [ex_ann, ex_bob, ex_cy, ex_dee],
                pairs = [ex_pair],
                payments = [ex_pay_ann, ex_pay_pair, ex_pay_dee, ex_pay_pair1],
                draws = [ex_draw],
                committeeKey = 3, memberKey = 5, pairKey = 2, paymentKey = 5, drawKey = 2\<rparr>"

text \<open>Committee 1 with Ann and the Half-share member Eve, who waits for a partner.\<close>

definition ex_store_waiting :: Store where
  "ex_store_waiting = \<lparr>committees = [ex_committee],
                        members = [ex_ann, ex_eve],
                        pairs = [], payments = [], draws = [],
                        committeeKey = 2, memberKey = 3, pairKey = 1, paymentKey = 1,
                        drawKey = 1\<rparr>"

lemmas ex_defs =
  ex_committee_def ex_committee2_def ex_ann_def ex_bob_def ex_cy_def ex_dee_def ex_eve_def
  ex_pair_def ex_pay_ann_def ex_pay_pair_def ex_pay_dee_def ex_pay_pair1_def ex_pay_stray_def
  ex_draw_def ex_draw_ann_def ex_sh_ann_def ex_sh_pair_def ex_store_def ex_store_waiting_def

section \<open>Rows and keys\<close>

lemma distinct_rows: "distinct (map key rows) \<Longrightarrow> distinct rows"
  by (simp add: distinct_map)


lemma same_key_same_row:
  "distinct (map key rows) \<Longrightarrow> x \<in> set rows \<Longrightarrow> y \<in> set rows \<Longrightarrow> key x = key y \<Longrightarrow> x = y"
  by (simp add: distinct_map inj_on_def)

lemma length_filter_card:
  "distinct rows \<Longrightarrow> length (filter P rows) = card {r \<in> set rows. P r}"
proof -
  assume d: "distinct rows"
  have "distinct (filter P rows)" using d by simp
  then have "card (set (filter P rows)) = length (filter P rows)"
    by (rule distinct_card)
  then show ?thesis by simp
qed

lemma get_row_None: "get_row key k rows = None \<longleftrightarrow> k \<notin> key ` set rows"
  by (auto simp: get_row_def find_None_iff)

lemma get_row_Some:
  "distinct (map key rows) \<Longrightarrow> r \<in> set rows \<Longrightarrow> key r = k \<Longrightarrow> get_row key k rows = Some r"
  by (induction rows) (auto simp: get_row_def)

lemma get_row_in_set: "get_row key k rows = Some r \<Longrightarrow> r \<in> set rows \<and> key r = k"
  unfolding get_row_def by (induction rows) (auto split: if_splits)

lemma filter_key_eq_row:
  assumes "distinct (map key rows)" and "r \<in> set rows"
  shows "filter (\<lambda>x. key x \<noteq> key r) rows = filter (\<lambda>x. x \<noteq> r) rows"
proof (rule filter_cong [OF refl])
  fix x assume "x \<in> set rows"
  then show "(key x \<noteq> key r) = (x \<noteq> r)"
    using same_key_same_row [OF assms(1) _ assms(2)] by blast
qed

lemma length_filter_two_rows:
  assumes d: "distinct rows" and a: "a \<in> set rows" and b: "b \<in> set rows" and ne: "a \<noteq> b"
  shows "length (filter (\<lambda>x. x \<noteq> a \<and> x \<noteq> b) rows) + 2 = length rows"
proof -
  have "set (filter (\<lambda>x. x \<noteq> a \<and> x \<noteq> b) rows) = set rows - {a, b}" by auto
  moreover have "distinct (filter (\<lambda>x. x \<noteq> a \<and> x \<noteq> b) rows)" using d by simp
  ultimately have "length (filter (\<lambda>x. x \<noteq> a \<and> x \<noteq> b) rows) = card (set rows - {a, b})"
    by (metis distinct_card)
  also have "\<dots> = card (set rows) - 2"
    using a b ne by (simp add: card_Diff_insert)
  finally have l: "length (filter (\<lambda>x. x \<noteq> a \<and> x \<noteq> b) rows) = length rows - 2"
    using d by (simp add: distinct_card)
  have "card {a, b} \<le> card (set rows)"
    using a b by (intro card_mono) auto
  then have "2 \<le> length rows" using ne d by (simp add: distinct_card)
  with l show ?thesis by simp
qed

lemma length_filter_one_row:
  assumes d: "distinct rows" and a: "a \<in> set rows"
  shows "length (filter (\<lambda>x. x \<noteq> a) rows) + 1 = length rows"
proof -
  have "length (filter (\<lambda>x. x \<noteq> a) rows) + length (filter (\<lambda>x. \<not> x \<noteq> a) rows) = length rows"
    by (rule sum_length_filter_compl)
  moreover have "filter (\<lambda>x. \<not> x \<noteq> a) rows = [a]"
    using d a by (induction rows) (auto simp: filter_empty_conv)
  ultimately show ?thesis by simp
qed







text \<open>
  \<open>put\<close> on a store whose keys ascend: a row whose key is present is replaced where it
  stands, and a row with the key of the last row replaces the last row.
\<close>

lemma put_row_replace:
  "sorted_wrt (<) (map key xs) \<Longrightarrow> x \<in> set xs \<Longrightarrow> key x = key r \<Longrightarrow>
   put_row key r xs = map (\<lambda>y. if key y = key r then r else y) xs"
proof (induction xs)
  case Nil
  then show ?case by simp
next
  case (Cons a xs)
  show ?case
  proof (cases "key a = key r")
    case True
    from Cons.prems(1) have "\<forall>y \<in> set xs. key a < key y" by simp
    with True have "\<forall>y \<in> set xs. key y \<noteq> key r" by auto
    then have "map (\<lambda>y. if key y = key r then r else y) xs = xs"
      by (simp add: map_idI)
    with True show ?thesis by simp
  next
    case False
    with Cons.prems have xin: "x \<in> set xs" by auto
    with Cons.prems(1) have "key a < key x" by simp
    with Cons.prems(3) have "\<not> key r < key a" by simp
    moreover from Cons.prems(1) have "sorted_wrt (<) (map key xs)" by simp
    ultimately show ?thesis
      using False Cons.IH xin Cons.prems(3) by simp
  qed
qed





section \<open>Duration\<close>

text \<open>
  Claim C6. For every committee state, the derived duration equals the number of
  Full-share members of the committee plus the number of its pairs, also when both are
  zero. Both places that derive it, \<open>effectiveDuration\<close> in the committee's detail view
  and the dashboard's card, agree with that count; the rows of a store have pairwise
  different keys.
\<close>

theorem duration_counts:
  assumes "distinct (map m_id (members s))" and "distinct (map p_id (pairs s))"
  shows "effectiveDuration (getMembersByCommittee s cid) (getPairsByCommittee s cid)
           = countFullMembers s cid + countPairs s cid
         \<and> dashboardDuration (members s) (pairs s) cid
           = countFullMembers s cid + countPairs s cid"
proof -
  have dm: "distinct (members s)" and dp: "distinct (pairs s)"
    using assms by (auto dest: distinct_rows)
  have f: "length (filter (\<lambda>m. m_committeeId m = cid \<and> m_shareType m = Full) (members s))
             = countFullMembers s cid"
    unfolding countFullMembers_def by (rule length_filter_card [OF dm])
  have p: "length (filter (\<lambda>p. p_committeeId p = cid) (pairs s)) = countPairs s cid"
    unfolding countPairs_def by (rule length_filter_card [OF dp])
  have ff: "filter (\<lambda>m. m_shareType m = Full) (filter (\<lambda>m. m_committeeId m = cid) (members s))
            = filter (\<lambda>m. m_committeeId m = cid \<and> m_shareType m = Full) (members s)"
    by (simp add: conj_commute)
  show ?thesis
    by (simp add: effectiveDuration_def dashboardDuration_def getMembersByCommittee_def
        getPairsByCommittee_def ff f p)
qed

text \<open>
  In the example database committee 1 has duration 2 (Ann and the pair), and committee 7,
  which has no members and no pairs, has duration 0.
\<close>

theorem duration_counts_witness:
  "distinct (map m_id (members ex_store)) \<and> distinct (map p_id (pairs ex_store))
   \<and> effectiveDuration (getMembersByCommittee ex_store 1) (getPairsByCommittee ex_store 1)
       = countFullMembers ex_store 1 + countPairs ex_store 1
   \<and> dashboardDuration (members ex_store) (pairs ex_store) 1
       = countFullMembers ex_store 1 + countPairs ex_store 1
   \<and> effectiveDuration (getMembersByCommittee ex_store 1) (getPairsByCommittee ex_store 1) = 2
   \<and> countFullMembers ex_store 7 + countPairs ex_store 7 = 0"
proof -
  have h1: "distinct (map m_id (members ex_store))" by (simp add: ex_defs)
  have h2: "distinct (map p_id (pairs ex_store))" by (simp add: ex_defs)
  have two: "effectiveDuration (getMembersByCommittee ex_store 1) (getPairsByCommittee ex_store 1) = 2"
    by (simp add: effectiveDuration_def getMembersByCommittee_def getPairsByCommittee_def ex_defs)
  have zero: "effectiveDuration (getMembersByCommittee ex_store 7) (getPairsByCommittee ex_store 7) = 0"
    by (simp add: effectiveDuration_def getMembersByCommittee_def getPairsByCommittee_def ex_defs)
  show ?thesis
    using h1 h2 two zero duration_counts [OF h1 h2, of 1] duration_counts [OF h1 h2, of 7]
    by simp
qed

section \<open>Conducting a draw\<close>

lemma canConductDraw_iff:
  "canConductDraw ms ps pays ds month =
     (shareholders ms ps \<noteq> [] \<and>
      length (filter (qualifying month) pays) = length (shareholders ms ps) \<and>
      \<not> list_ex (\<lambda>d. d_month d = month) ds)"
  by (simp add: canConductDraw_def Let_def)

lemma everyShareholderPaid_iff:
  "everyShareholderPaid shs pays month \<longleftrightarrow>
     set (map (\<lambda>sh. (sh_type sh, sh_id sh)) shs)
       \<subseteq> set (map (\<lambda>p. (pay_payerType p, pay_payerId p)) (filter (qualifying month) pays))"
  unfolding everyShareholderPaid_def list_all_iff list_ex_iff
  by (simp add: subset_iff image_iff) fastforce

lemma count_eq_iff_covered:
  assumes dk: "distinct ks" and dq: "distinct qs" and sub: "set qs \<subseteq> set ks"
  shows "length qs = length ks \<longleftrightarrow> set ks \<subseteq> set qs"
proof
  assume "length qs = length ks"
  then have "card (set qs) = card (set ks)"
    using dk dq by (simp add: distinct_card)
  then have "set qs = set ks"
    using sub by (simp add: card_subset_eq)
  then show "set ks \<subseteq> set qs" by simp
next
  assume "set ks \<subseteq> set qs"
  then have "set qs = set ks" using sub by auto
  then have "card (set qs) = card (set ks)" by simp
  then show "length qs = length ks"
    using dk dq by (simp add: distinct_card)
qed

text \<open>
  Claim C1, as stated, fails on the code in two ways. A committee without shareholders
  has every shareholder paid and no draw, yet \<open>canConductDraw\<close> answers false (the guard
  on \<open>totalShareholders === 0\<close>). And the code compares counts: with the shareholders Ann
  and the pair and two Paid rows of month 0, one of Ann and one of a payer that is no
  shareholder, it answers true although the pair has not paid.
\<close>

theorem canConductDraw_claim_counterexample:
  "\<not> (canConductDraw [] [] [] [] 0 \<longleftrightarrow>
        (everyShareholderPaid (shareholders [] []) [] 0 \<and> \<not> list_ex (\<lambda>d. d_month d = 0) []))
   \<and> \<not> (canConductDraw [ex_ann] [ex_pair] [ex_pay_ann, ex_pay_stray] [] 0 \<longleftrightarrow>
        (everyShareholderPaid (shareholders [ex_ann] [ex_pair]) [ex_pay_ann, ex_pay_stray] 0
         \<and> \<not> list_ex (\<lambda>d. d_month d = 0) []))"
  by (simp add: canConductDraw_def everyShareholderPaid_def shareholders_def qualifying_def
      ex_defs)

text \<open>
  Claim C1, amended. When the shareholders are pairwise different, the Paid or Late
  payments of the month have pairwise different payers, and each of them is a payment of a
  current shareholder, \<open>canConductDraw\<close> answers true exactly when the committee has at
  least one shareholder, every shareholder has a Paid or Late payment of the month, and
  the month has no draw.
\<close>

theorem canConductDraw_full_collection:
  assumes dsh: "distinct (map (\<lambda>sh. (sh_type sh, sh_id sh)) (shareholders ms ps))"
    and dpay: "distinct (map (\<lambda>p. (pay_payerType p, pay_payerId p))
                             (filter (qualifying month) pays))"
    and refs: "\<forall>p \<in> set (filter (qualifying month) pays).
                 \<exists>sh \<in> set (shareholders ms ps).
                   sh_type sh = pay_payerType p \<and> sh_id sh = pay_payerId p"
  shows "canConductDraw ms ps pays ds month \<longleftrightarrow>
           (shareholders ms ps \<noteq> [] \<and> everyShareholderPaid (shareholders ms ps) pays month
            \<and> \<not> list_ex (\<lambda>d. d_month d = month) ds)"
proof -
  let ?ks = "map (\<lambda>sh. (sh_type sh, sh_id sh)) (shareholders ms ps)"
  let ?qs = "map (\<lambda>p. (pay_payerType p, pay_payerId p)) (filter (qualifying month) pays)"
  have sub: "set ?qs \<subseteq> set ?ks"
  proof
    fix k assume "k \<in> set ?qs"
    then obtain p where p: "p \<in> set (filter (qualifying month) pays)"
      and k: "k = (pay_payerType p, pay_payerId p)" by auto
    from refs p obtain sh where "sh \<in> set (shareholders ms ps)"
      and "sh_type sh = pay_payerType p" and "sh_id sh = pay_payerId p" by blast
    then show "k \<in> set ?ks" using k by force
  qed
  have "length ?qs = length ?ks \<longleftrightarrow> set ?ks \<subseteq> set ?qs"
    by (rule count_eq_iff_covered [OF dsh dpay sub])
  then have "length (filter (qualifying month) pays) = length (shareholders ms ps)
               \<longleftrightarrow> everyShareholderPaid (shareholders ms ps) pays month"
    by (simp add: everyShareholderPaid_iff)
  then show ?thesis by (simp add: canConductDraw_iff)
qed

text \<open>
  With Ann and the pair as shareholders: Ann's payment alone does not allow the draw of
  month 0, the pair's payment added allows it, and a draw of month 0 forbids it again.
\<close>

theorem canConductDraw_full_collection_witness:
  "distinct (map (\<lambda>sh. (sh_type sh, sh_id sh)) (shareholders [ex_ann] [ex_pair]))
   \<and> distinct (map (\<lambda>p. (pay_payerType p, pay_payerId p))
                    (filter (qualifying 0) [ex_pay_ann, ex_pay_pair]))
   \<and> list_all (\<lambda>p. list_ex (\<lambda>sh. sh_type sh = pay_payerType p \<and> sh_id sh = pay_payerId p)
                             (shareholders [ex_ann] [ex_pair]))
                (filter (qualifying 0) [ex_pay_ann, ex_pay_pair])
   \<and> canConductDraw [ex_ann] [ex_pair] [ex_pay_ann, ex_pay_pair] [] 0
   \<and> everyShareholderPaid (shareholders [ex_ann] [ex_pair]) [ex_pay_ann, ex_pay_pair] 0
   \<and> \<not> canConductDraw [ex_ann] [ex_pair] [ex_pay_ann] [] 0
   \<and> \<not> canConductDraw [ex_ann] [ex_pair] [ex_pay_ann, ex_pay_pair] [ex_draw] 0"
proof -
  have h1: "distinct (map (\<lambda>sh. (sh_type sh, sh_id sh)) (shareholders [ex_ann] [ex_pair]))"
    by (simp add: shareholders_def ex_defs)
  have h2: "distinct (map (\<lambda>p. (pay_payerType p, pay_payerId p))
                          (filter (qualifying 0) [ex_pay_ann, ex_pay_pair]))"
    by (simp add: qualifying_def ex_defs)
  have h3: "\<forall>p \<in> set (filter (qualifying 0) [ex_pay_ann, ex_pay_pair]).
              \<exists>sh \<in> set (shareholders [ex_ann] [ex_pair]).
                sh_type sh = pay_payerType p \<and> sh_id sh = pay_payerId p"
    by (simp add: qualifying_def shareholders_def ex_defs)
  have paid: "everyShareholderPaid (shareholders [ex_ann] [ex_pair]) [ex_pay_ann, ex_pay_pair] 0"
    by (simp add: everyShareholderPaid_def qualifying_def shareholders_def ex_defs)
  have ne: "shareholders [ex_ann] [ex_pair] \<noteq> []"
    by (simp add: shareholders_def)
  have can: "canConductDraw [ex_ann] [ex_pair] [ex_pay_ann, ex_pay_pair] [] 0"
    using canConductDraw_full_collection [OF h1 h2 h3, of "[]"] paid ne by simp
  have one: "\<not> canConductDraw [ex_ann] [ex_pair] [ex_pay_ann] [] 0"
    by (simp add: canConductDraw_def qualifying_def shareholders_def ex_defs)
  have drawn: "\<not> canConductDraw [ex_ann] [ex_pair] [ex_pay_ann, ex_pay_pair] [ex_draw] 0"
    by (simp add: canConductDraw_def qualifying_def shareholders_def ex_defs)
  have h3': "list_all (\<lambda>p. list_ex (\<lambda>sh. sh_type sh = pay_payerType p \<and> sh_id sh = pay_payerId p)
                                   (shareholders [ex_ann] [ex_pair]))
                      (filter (qualifying 0) [ex_pay_ann, ex_pay_pair])"
    using h3 unfolding list_all_iff list_ex_iff .
  show ?thesis using h1 h2 h3' paid can one drawn by blast
qed

text \<open>
  Claim C10. \<open>canConductDraw\<close> decides from the number of the Paid or Late payments of
  the month alone, without looking at their payers. It answers true exactly when there
  is at least one shareholder, that number equals the number of shareholders, and the
  month has no draw; so two payment lists with the same number of Paid or Late payments
  of the month get the same answer, and in every state with at least one shareholder and
  no draw of the month the answer is true whenever the number equals the number of
  shareholders, whoever the payers of the counted payments are.
\<close>

theorem canConductDraw_counts_only:
  "(canConductDraw ms ps pays ds month \<longleftrightarrow>
      shareholders ms ps \<noteq> []
      \<and> length (filter (qualifying month) pays) = length (shareholders ms ps)
      \<and> \<not> list_ex (\<lambda>d. d_month d = month) ds)
   \<and> (length (filter (qualifying month) pays') = length (filter (qualifying month) pays)
        \<longrightarrow> canConductDraw ms ps pays' ds month = canConductDraw ms ps pays ds month)
   \<and> (shareholders ms ps \<noteq> [] \<and> \<not> list_ex (\<lambda>d. d_month d = month) ds
        \<and> length (filter (qualifying month) pays) = length (shareholders ms ps)
        \<longrightarrow> canConductDraw ms ps pays ds month)"
  by (simp add: canConductDraw_def Let_def)

text \<open>
  For the shareholders Ann and the pair: the draw of month 0 is allowed on two counted
  payments although the pair has none (the second payment is of a payer that is no
  shareholder), it is allowed as well on the payments of Ann and of the pair, which are
  as many, and it is refused on Ann's payment alone and when month 0 has a draw.
\<close>

theorem canConductDraw_counts_only_witness:
  "shareholders [ex_ann] [ex_pair] \<noteq> []
   \<and> length (filter (qualifying 0) [ex_pay_ann, ex_pay_stray]) = length (shareholders [ex_ann] [ex_pair])
   \<and> length (filter (qualifying 0) [ex_pay_ann, ex_pay_pair])
       = length (filter (qualifying 0) [ex_pay_ann, ex_pay_stray])
   \<and> canConductDraw [ex_ann] [ex_pair] [ex_pay_ann, ex_pay_stray] [] 0
   \<and> \<not> everyShareholderPaid (shareholders [ex_ann] [ex_pair]) [ex_pay_ann, ex_pay_stray] 0
   \<and> canConductDraw [ex_ann] [ex_pair] [ex_pay_ann, ex_pay_pair] [] 0
   \<and> \<not> canConductDraw [ex_ann] [ex_pair] [ex_pay_ann] [] 0
   \<and> \<not> canConductDraw [ex_ann] [ex_pair] [ex_pay_ann, ex_pay_stray] [ex_draw] 0"
proof -
  have h1: "shareholders [ex_ann] [ex_pair] \<noteq> []"
    by (simp add: shareholders_def)
  have h2: "\<not> list_ex (\<lambda>d. d_month d = 0) ([] :: Draw list)"
    by simp
  have h3: "length (filter (qualifying 0) [ex_pay_ann, ex_pay_stray])
              = length (shareholders [ex_ann] [ex_pair])"
    by (simp add: qualifying_def shareholders_def ex_defs)
  have h4: "length (filter (qualifying 0) [ex_pay_ann, ex_pay_pair])
              = length (filter (qualifying 0) [ex_pay_ann, ex_pay_stray])"
    by (simp add: qualifying_def ex_defs)
  have h5: "length (filter (qualifying 0) [ex_pay_ann]) \<noteq> length (shareholders [ex_ann] [ex_pair])"
    by (simp add: qualifying_def shareholders_def ex_defs)
  have h6: "list_ex (\<lambda>d. d_month d = 0) [ex_draw]"
    by (simp add: ex_defs)
  have unpaid: "\<not> everyShareholderPaid (shareholders [ex_ann] [ex_pair]) [ex_pay_ann, ex_pay_stray] 0"
    by (simp add: everyShareholderPaid_def qualifying_def shareholders_def ex_defs)
  have r1: "canConductDraw [ex_ann] [ex_pair] [ex_pay_ann, ex_pay_stray] [] 0"
    using canConductDraw_counts_only
            [of "[ex_ann]" "[ex_pair]" "[ex_pay_ann, ex_pay_stray]" "[]" 0 "[]"] h1 h2 h3
    by blast
  have r2: "canConductDraw [ex_ann] [ex_pair] [ex_pay_ann, ex_pay_pair] [] 0"
    using canConductDraw_counts_only
            [of "[ex_ann]" "[ex_pair]" "[ex_pay_ann, ex_pay_stray]" "[]" 0 "[ex_pay_ann, ex_pay_pair]"]
          h4 r1
    by blast
  have r3: "\<not> canConductDraw [ex_ann] [ex_pair] [ex_pay_ann] [] 0"
    using canConductDraw_counts_only
            [of "[ex_ann]" "[ex_pair]" "[ex_pay_ann]" "[]" 0 "[]"] h5
    by blast
  have r4: "\<not> canConductDraw [ex_ann] [ex_pair] [ex_pay_ann, ex_pay_stray] [ex_draw] 0"
    using canConductDraw_counts_only
            [of "[ex_ann]" "[ex_pair]" "[ex_pay_ann, ex_pay_stray]" "[ex_draw]" 0 "[]"] h6
    by blast
  show ?thesis using h1 h3 h4 unpaid r1 r2 r3 r4 by (intro conjI)
qed

section \<open>Deleting a member\<close>

lemma deleteMember_not_found:
  "memberId \<notin> m_id ` set (members s) \<Longrightarrow>
   deleteMember memberId s = (Inl (Error ''Member not found''), s)"
  using get_row_None [of m_id memberId "members s"] by (simp add: deleteMember_def)

lemma deleteMember_paired:
  assumes "distinct (map m_id (members s))" and "m \<in> set (members s)" and "m_id m = memberId"
    and "m_pairId m = Some k" and "0 < k"
  shows "deleteMember memberId s =
           (Inl (Error ''Cannot delete a member that is part of a pair. Delete the pair instead.''), s)"
proof -
  have "get_row m_id memberId (members s) = Some m"
    using assms(1-3) by (rule get_row_Some)
  then show ?thesis using assms(4,5) by (simp add: deleteMember_def truthyOpt_def truthy_def)
qed

lemma deleteMember_unpaired:
  assumes "distinct (map m_id (members s))" and "m \<in> set (members s)" and "m_id m = memberId"
    and "m_pairId m = None"
  shows "deleteMember memberId s =
           (Inr (), s\<lparr>members := filter (\<lambda>x. m_id x \<noteq> memberId) (members s),
                      payments := filter (\<lambda>p. \<not> (pay_payerId p = memberId \<and> pay_payerType p = PT_member))
                                         (payments s)\<rparr>)"
proof -
  have "get_row m_id memberId (members s) = Some m"
    using assms(1-3) by (rule get_row_Some)
  then show ?thesis using assms(4) by (simp add: deleteMember_def truthyOpt_def delete_row_def)
qed

text \<open>
  Claim C5. \<open>deleteMember\<close> rejects with the conflict error (``Cannot delete a member
  that is part of a pair'') when the member exists and has a \<open>pairId\<close>, and with the
  not-found error (``Member not found'') when no member has that id; in both cases the
  transaction is aborted and the store is as before. Otherwise it removes the member and
  every payment keyed to (id, member), and nothing else. The \<open>pairId\<close> of a member is an
  id that the pairs' key generator issued, hence positive.
\<close>

theorem deleteMember_contract:
  assumes d: "distinct (map m_id (members s))"
  shows "(memberId \<notin> m_id ` set (members s) \<longrightarrow>
            deleteMember memberId s = (Inl (Error ''Member not found''), s))
       \<and> (\<forall>m k. m \<in> set (members s) \<and> m_id m = memberId \<and> m_pairId m = Some k \<and> 0 < k \<longrightarrow>
            deleteMember memberId s =
              (Inl (Error ''Cannot delete a member that is part of a pair. Delete the pair instead.''), s))
       \<and> (\<forall>m. m \<in> set (members s) \<and> m_id m = memberId \<and> m_pairId m = None \<longrightarrow>
            deleteMember memberId s =
              (Inr (), s\<lparr>members := filter (\<lambda>x. m_id x \<noteq> memberId) (members s),
                         payments := filter (\<lambda>p. \<not> (pay_payerId p = memberId \<and> pay_payerType p = PT_member))
                                            (payments s)\<rparr>)
            \<and> set (filter (\<lambda>x. m_id x \<noteq> memberId) (members s)) = set (members s) - {m})"
proof (intro conjI allI impI)
  assume "memberId \<notin> m_id ` set (members s)"
  then show "deleteMember memberId s = (Inl (Error ''Member not found''), s)"
    by (rule deleteMember_not_found)
next
  fix m k
  assume "m \<in> set (members s) \<and> m_id m = memberId \<and> m_pairId m = Some k \<and> 0 < k"
  then show "deleteMember memberId s =
      (Inl (Error ''Cannot delete a member that is part of a pair. Delete the pair instead.''), s)"
    using deleteMember_paired [OF d] by blast
next
  fix m
  assume "m \<in> set (members s) \<and> m_id m = memberId \<and> m_pairId m = None"
  then show "deleteMember memberId s =
      (Inr (), s\<lparr>members := filter (\<lambda>x. m_id x \<noteq> memberId) (members s),
                 payments := filter (\<lambda>p. \<not> (pay_payerId p = memberId \<and> pay_payerType p = PT_member))
                                    (payments s)\<rparr>)"
    using deleteMember_unpaired [OF d] by blast
next
  fix m
  assume a: "m \<in> set (members s) \<and> m_id m = memberId \<and> m_pairId m = None"
  have "\<And>x. x \<in> set (members s) \<Longrightarrow> m_id x = memberId \<Longrightarrow> x = m"
    using same_key_same_row [OF d] a by blast
  then show "set (filter (\<lambda>x. m_id x \<noteq> memberId) (members s)) = set (members s) - {m}"
    using a by auto
qed

text \<open>
  In the example database: no member has id 99; Bob (id 2) is paired; deleting Ann (id 1)
  removes her row and her payment and keeps the payments of the pair and of Dee.
\<close>

theorem deleteMember_contract_witness:
  "distinct (map m_id (members ex_store))
   \<and> deleteMember 99 ex_store = (Inl (Error ''Member not found''), ex_store)
   \<and> deleteMember 2 ex_store =
       (Inl (Error ''Cannot delete a member that is part of a pair. Delete the pair instead.''),
        ex_store)
   \<and> deleteMember 1 ex_store =
       (Inr (), ex_store\<lparr>members := [ex_bob, ex_cy, ex_dee],
                         payments := [ex_pay_pair, ex_pay_dee, ex_pay_pair1]\<rparr>)"
proof -
  have d: "distinct (map m_id (members ex_store))" by (simp add: ex_defs)
  have "99 \<notin> m_id ` set (members ex_store)" by (simp add: ex_defs)
  with deleteMember_contract [OF d, of 99]
  have r1: "deleteMember 99 ex_store = (Inl (Error ''Member not found''), ex_store)"
    by blast
  have "ex_bob \<in> set (members ex_store) \<and> m_id ex_bob = 2 \<and> m_pairId ex_bob = Some 1
        \<and> (0::nat) < 1"
    by (simp add: ex_defs)
  with deleteMember_contract [OF d, of 2]
  have r2: "deleteMember 2 ex_store =
       (Inl (Error ''Cannot delete a member that is part of a pair. Delete the pair instead.''),
        ex_store)"
    by blast
  have "ex_ann \<in> set (members ex_store) \<and> m_id ex_ann = 1 \<and> m_pairId ex_ann = None"
    by (simp add: ex_defs)
  with deleteMember_contract [OF d, of 1]
  have "deleteMember 1 ex_store =
       (Inr (), ex_store\<lparr>members := filter (\<lambda>x. m_id x \<noteq> 1) (members ex_store),
                  payments := filter (\<lambda>p. \<not> (pay_payerId p = 1 \<and> pay_payerType p = PT_member))
                                     (payments ex_store)\<rparr>)"
    by blast
  then have r3: "deleteMember 1 ex_store =
       (Inr (), ex_store\<lparr>members := [ex_bob, ex_cy, ex_dee],
                         payments := [ex_pay_pair, ex_pay_dee, ex_pay_pair1]\<rparr>)"
    by (simp add: ex_defs)
  show ?thesis using d r1 r2 r3 by blast
qed

section \<open>Deleting a pair\<close>

lemma deletePair_not_found:
  "pairId \<notin> p_id ` set (pairs s) \<Longrightarrow> deletePair pairId s = (Inl (Error ''Pair not found''), s)"
  using get_row_None [of p_id pairId "pairs s"] by (simp add: deletePair_def)

lemma deletePair_found:
  assumes "distinct (map p_id (pairs s))" and "p \<in> set (pairs s)"
  shows "deletePair (p_id p) s =
           (Inr (),
            s\<lparr>members := filter (\<lambda>m. m_id m \<noteq> p_member1Id p \<and> m_id m \<noteq> p_member2Id p) (members s),
              pairs := filter (\<lambda>q. p_id q \<noteq> p_id p) (pairs s),
              payments := filter (\<lambda>q. \<not> (pay_payerId q = p_id p \<and> pay_payerType q = PT_pair))
                                 (payments s)\<rparr>)"
proof -
  have "get_row p_id (p_id p) (pairs s) = Some p"
    using assms by (rule get_row_Some) simp
  then show ?thesis by (simp add: deletePair_def delete_row_def)
qed

text \<open>
  Claim C4. For an existing pair \<open>p\<close> whose two members \<open>m1\<close> and \<open>m2\<close> are in the store,
  \<open>deletePair\<close> succeeds and leaves the store with exactly the two members, the pair and
  the payments keyed to (id of \<open>p\<close>, pair) removed: two member rows and one pair row
  fewer, all other rows and all other collections as before. Payments keyed to a member
  stay, and when the pair's members and payments belong to the pair's committee, every
  other committee reads the same members, pairs, payments and draws as before.
  \<open>deletePair\<close> rejects with the not-found error (``Pair not found'') and an unchanged
  store when no pair has the id.
\<close>

theorem deletePair_cascade:
  assumes dp: "distinct (map p_id (pairs s))" and dm: "distinct (map m_id (members s))"
    and p: "p \<in> set (pairs s)"
    and m1: "m1 \<in> set (members s)" and i1: "m_id m1 = p_member1Id p"
    and m2: "m2 \<in> set (members s)" and i2: "m_id m2 = p_member2Id p"
    and ne: "m1 \<noteq> m2"
  shows
   "deletePair (p_id p) s =
      (Inr (),
       s\<lparr>members := filter (\<lambda>m. m \<noteq> m1 \<and> m \<noteq> m2) (members s),
         pairs := filter (\<lambda>q. q \<noteq> p) (pairs s),
         payments := filter (\<lambda>q. \<not> (pay_payerId q = p_id p \<and> pay_payerType q = PT_pair))
                            (payments s)\<rparr>)
    \<and> length (filter (\<lambda>m. m \<noteq> m1 \<and> m \<noteq> m2) (members s)) + 2 = length (members s)
    \<and> length (filter (\<lambda>q. q \<noteq> p) (pairs s)) + 1 = length (pairs s)
    \<and> length (filter (\<lambda>q. \<not> (pay_payerId q = p_id p \<and> pay_payerType q = PT_pair)) (payments s))
        + length (filter (\<lambda>q. pay_payerId q = p_id p \<and> pay_payerType q = PT_pair) (payments s))
        = length (payments s)
    \<and> filter (\<lambda>q. pay_payerType q = PT_member) (payments (snd (deletePair (p_id p) s)))
        = filter (\<lambda>q. pay_payerType q = PT_member) (payments s)
    \<and> (m_committeeId m1 = p_committeeId p \<and> m_committeeId m2 = p_committeeId p
        \<and> (\<forall>q \<in> set (payments s). pay_payerId q = p_id p \<and> pay_payerType q = PT_pair
                                     \<longrightarrow> pay_committeeId q = p_committeeId p)
        \<longrightarrow> (\<forall>cid. cid \<noteq> p_committeeId p \<longrightarrow>
               getMembersByCommittee (snd (deletePair (p_id p) s)) cid = getMembersByCommittee s cid
             \<and> getPairsByCommittee (snd (deletePair (p_id p) s)) cid = getPairsByCommittee s cid
             \<and> getPaymentsByCommittee (snd (deletePair (p_id p) s)) cid = getPaymentsByCommittee s cid
             \<and> getDrawsByCommittee (snd (deletePair (p_id p) s)) cid = getDrawsByCommittee s cid))
    \<and> (\<forall>k. k \<notin> p_id ` set (pairs s) \<longrightarrow> deletePair k s = (Inl (Error ''Pair not found''), s))"
proof -
  let ?keyed = "\<lambda>q. pay_payerId q = p_id p \<and> pay_payerType q = PT_pair"
  have fm: "filter (\<lambda>m. m_id m \<noteq> p_member1Id p \<and> m_id m \<noteq> p_member2Id p) (members s)
              = filter (\<lambda>m. m \<noteq> m1 \<and> m \<noteq> m2) (members s)"
  proof (rule filter_cong [OF refl])
    fix x assume xin: "x \<in> set (members s)"
    have "(m_id x = m_id m1) = (x = m1)"
      using same_key_same_row [OF dm xin m1] by blast
    moreover have "(m_id x = m_id m2) = (x = m2)"
      using same_key_same_row [OF dm xin m2] by blast
    ultimately show "(m_id x \<noteq> p_member1Id p \<and> m_id x \<noteq> p_member2Id p) = (x \<noteq> m1 \<and> x \<noteq> m2)"
      using i1 i2 by simp
  qed
  have fp: "filter (\<lambda>q. p_id q \<noteq> p_id p) (pairs s) = filter (\<lambda>q. q \<noteq> p) (pairs s)"
    using dp p by (rule filter_key_eq_row)
  have eq: "deletePair (p_id p) s =
      (Inr (),
       s\<lparr>members := filter (\<lambda>m. m \<noteq> m1 \<and> m \<noteq> m2) (members s),
         pairs := filter (\<lambda>q. q \<noteq> p) (pairs s),
         payments := filter (\<lambda>q. \<not> ?keyed q) (payments s)\<rparr>)"
    using deletePair_found [OF dp p] by (simp add: fm fp)
  have lm: "length (filter (\<lambda>m. m \<noteq> m1 \<and> m \<noteq> m2) (members s)) + 2 = length (members s)"
    using distinct_rows [OF dm] m1 m2 ne by (rule length_filter_two_rows)
  have lp: "length (filter (\<lambda>q. q \<noteq> p) (pairs s)) + 1 = length (pairs s)"
    using distinct_rows [OF dp] p by (rule length_filter_one_row)
  have lq: "length (filter (\<lambda>q. \<not> ?keyed q) (payments s)) + length (filter ?keyed (payments s))
              = length (payments s)"
    using sum_length_filter_compl [of ?keyed "payments s"] by simp
  have mem: "filter (\<lambda>q. pay_payerType q = PT_member) (payments (snd (deletePair (p_id p) s)))
        = filter (\<lambda>q. pay_payerType q = PT_member) (payments s)"
    unfolding eq by (auto intro: filter_cong)
  have other: "m_committeeId m1 = p_committeeId p \<and> m_committeeId m2 = p_committeeId p
        \<and> (\<forall>q \<in> set (payments s). ?keyed q \<longrightarrow> pay_committeeId q = p_committeeId p)
        \<longrightarrow> (\<forall>cid. cid \<noteq> p_committeeId p \<longrightarrow>
               getMembersByCommittee (snd (deletePair (p_id p) s)) cid = getMembersByCommittee s cid
             \<and> getPairsByCommittee (snd (deletePair (p_id p) s)) cid = getPairsByCommittee s cid
             \<and> getPaymentsByCommittee (snd (deletePair (p_id p) s)) cid = getPaymentsByCommittee s cid
             \<and> getDrawsByCommittee (snd (deletePair (p_id p) s)) cid = getDrawsByCommittee s cid)"
    unfolding eq
    by (auto simp: getMembersByCommittee_def getPairsByCommittee_def getPaymentsByCommittee_def
        getDrawsByCommittee_def intro!: filter_cong)
  have nf: "\<forall>k. k \<notin> p_id ` set (pairs s) \<longrightarrow> deletePair k s = (Inl (Error ''Pair not found''), s)"
    using deletePair_not_found by blast
  show ?thesis using eq lm lp lq mem other nf by (intro conjI)
qed

text \<open>
  In the example database, deleting pair 1 removes Bob and Cy, the pair and its two
  payments, keeps Ann's payment and all of committee 2; no pair has id 5.
\<close>

theorem deletePair_cascade_witness:
  "distinct (map p_id (pairs ex_store)) \<and> distinct (map m_id (members ex_store))
   \<and> ex_pair \<in> set (pairs ex_store)
   \<and> ex_bob \<in> set (members ex_store) \<and> m_id ex_bob = p_member1Id ex_pair
   \<and> ex_cy \<in> set (members ex_store) \<and> m_id ex_cy = p_member2Id ex_pair
   \<and> ex_bob \<noteq> ex_cy
   \<and> deletePair 1 ex_store =
       (Inr (), ex_store\<lparr>members := [ex_ann, ex_dee], pairs := [],
                         payments := [ex_pay_ann, ex_pay_dee]\<rparr>)
   \<and> getMembersByCommittee (snd (deletePair 1 ex_store)) 2 = [ex_dee]
   \<and> getPaymentsByCommittee (snd (deletePair 1 ex_store)) 2 = [ex_pay_dee]
   \<and> deletePair 5 ex_store = (Inl (Error ''Pair not found''), ex_store)"
proof -
  have h1: "distinct (map p_id (pairs ex_store))" by (simp add: ex_defs)
  have h2: "distinct (map m_id (members ex_store))" by (simp add: ex_defs)
  have h3: "ex_pair \<in> set (pairs ex_store)" by (simp add: ex_defs)
  have h4: "ex_bob \<in> set (members ex_store)" by (simp add: ex_defs)
  have h5: "m_id ex_bob = p_member1Id ex_pair" by (simp add: ex_defs)
  have h6: "ex_cy \<in> set (members ex_store)" by (simp add: ex_defs)
  have h7: "m_id ex_cy = p_member2Id ex_pair" by (simp add: ex_defs)
  have h8: "ex_bob \<noteq> ex_cy" by (simp add: ex_defs)
  note inst = deletePair_cascade [OF h1 h2 h3 h4 h5 h6 h7 h8]
  have id: "p_id ex_pair = 1" by (simp add: ex_defs)
  from inst have "deletePair (p_id ex_pair) ex_store =
      (Inr (),
       ex_store\<lparr>members := filter (\<lambda>m. m \<noteq> ex_bob \<and> m \<noteq> ex_cy) (members ex_store),
         pairs := filter (\<lambda>q. q \<noteq> ex_pair) (pairs ex_store),
         payments := filter (\<lambda>q. \<not> (pay_payerId q = p_id ex_pair \<and> pay_payerType q = PT_pair))
                            (payments ex_store)\<rparr>)"
    by (rule conjunct1)
  then have r1: "deletePair 1 ex_store =
       (Inr (), ex_store\<lparr>members := [ex_ann, ex_dee], pairs := [],
                         payments := [ex_pay_ann, ex_pay_dee]\<rparr>)"
    unfolding id by (simp add: ex_defs)
  have r2: "getMembersByCommittee (snd (deletePair 1 ex_store)) 2 = [ex_dee]"
    unfolding r1 by (simp add: getMembersByCommittee_def ex_defs)
  have r3: "getPaymentsByCommittee (snd (deletePair 1 ex_store)) 2 = [ex_pay_dee]"
    unfolding r1 by (simp add: getPaymentsByCommittee_def ex_defs)
  have "5 \<notin> p_id ` set (pairs ex_store)" by (simp add: ex_defs)
  with inst have r4: "deletePair 5 ex_store = (Inl (Error ''Pair not found''), ex_store)"
    by blast
  show ?thesis using h1 h2 h3 h4 h5 h6 h7 h8 r1 r2 r3 r4 by (intro conjI)
qed

section \<open>Eligibility for winner selection\<close>

text \<open>
  The keys \<open>`${type}-${id}`\<close> tell shareholders apart: decimal numerals are injective and
  the two type names start with different letters.
\<close>

declare showNat.simps [simp del]

lemma digitChar_inj: "a < 10 \<Longrightarrow> b < 10 \<Longrightarrow> digitChar a = digitChar b \<Longrightarrow> a = b"
proof -
  assume a: "a < 10" and b: "b < 10" and e: "digitChar a = digitChar b"
  have "48 + a \<in> {0..<256}" and "48 + b \<in> {0..<256}" using a b by auto
  with e have "48 + a = 48 + b"
    unfolding digitChar_def using inj_on_char_of_nat by (meson inj_onD)
  then show ?thesis by simp
qed

lemma showNat_nonempty: "showNat n \<noteq> []"
  by (subst showNat.simps) simp

lemma showNat_last: "last (showNat n) = digitChar (n mod 10)"
  by (subst showNat.simps) simp

lemma showNat_butlast:
  "butlast (showNat n) = (if n < 10 then [] else showNat (n div 10))"
  by (subst showNat.simps) simp

lemma showNat_inj: "showNat n = showNat m \<Longrightarrow> n = m"
proof (induction n arbitrary: m rule: showNat.induct)
  case (1 n)
  from "1.prems" have l: "digitChar (n mod 10) = digitChar (m mod 10)"
    using showNat_last by metis
  then have md: "n mod 10 = m mod 10"
    by (intro digitChar_inj) auto
  from "1.prems" have bl: "butlast (showNat n) = butlast (showNat m)" by simp
  show ?case
  proof (cases "n < 10")
    case True
    with bl have "m < 10"
      using showNat_butlast [of m] showNat_butlast [of n] showNat_nonempty [of "m div 10"]
      by (auto split: if_splits)
    with True md show ?thesis by simp
  next
    case False
    with bl have m10: "\<not> m < 10"
      using showNat_butlast [of m] showNat_butlast [of n] showNat_nonempty [of "n div 10"]
      by (auto split: if_splits)
    with False bl have "showNat (n div 10) = showNat (m div 10)"
      by (simp add: showNat_butlast)
    with "1.IH" False have "n div 10 = m div 10" by simp
    with md show ?thesis
      by (metis div_mult_mod_eq)
  qed
qed

lemma shareholderKey_inj:
  "shareholderKey t i = shareholderKey t' i' \<longleftrightarrow> t = t' \<and> i = i'"
proof
  assume e: "shareholderKey t i = shareholderKey t' i'"
  have t: "t = t'"
    using e by (cases t; cases t') (simp_all add: shareholderKey_def payerTypeName_def)
  with e have "showNat i = showNat i'" by (simp add: shareholderKey_def)
  then have "i = i'" by (rule showNat_inj)
  with t show "t = t' \<and> i = i'" by simp
next
  assume "t = t' \<and> i = i'"
  then show "shareholderKey t i = shareholderKey t' i'" by simp
qed

lemma eligibleForDraw_eq:
  "eligibleForDraw ds shs (Some sm) =
     filter (\<lambda>sh. \<not> list_ex (\<lambda>d. d_month d \<noteq> sm \<and> d_winnerType d = sh_type sh
                                  \<and> d_winnerId d = sh_id sh) ds) shs"
proof -
  have m: "\<And>sh. List.member (map (\<lambda>d. shareholderKey (d_winnerType d) (d_winnerId d))
                                (filter (\<lambda>d. d_month d \<noteq> sm) ds))
                           (shareholderKey (sh_type sh) (sh_id sh))
            \<longleftrightarrow> list_ex (\<lambda>d. d_month d \<noteq> sm \<and> d_winnerType d = sh_type sh
                                  \<and> d_winnerId d = sh_id sh) ds"
    by (auto simp: list_ex_iff shareholderKey_inj image_iff)
  show ?thesis by (simp only: eligibleForDraw_def Let_def option.case m)
qed

text \<open>
  Claim C7. For the selected month \<open>sm\<close>, a shareholder is eligible exactly when it is a
  shareholder of the committee and has won no draw of a month other than \<open>sm\<close>. So the
  winner of the existing draw of month \<open>sm\<close>, which has won no other month, stays
  eligible while that draw is edited.
\<close>

theorem eligibleForDraw_exact:
  "(sh \<in> set (eligibleForDraw ds shs (Some sm)) \<longleftrightarrow>
      sh \<in> set shs \<and>
      \<not> (\<exists>d \<in> set ds. d_month d \<noteq> sm \<and> d_winnerType d = sh_type sh \<and> d_winnerId d = sh_id sh))
   \<and> (\<forall>d. d \<in> set ds \<and> d_month d = sm \<and> sh \<in> set shs
           \<and> d_winnerType d = sh_type sh \<and> d_winnerId d = sh_id sh
           \<and> (\<forall>d' \<in> set ds. d_winnerType d' = sh_type sh \<and> d_winnerId d' = sh_id sh
                               \<longrightarrow> d_month d' = sm)
         \<longrightarrow> sh \<in> set (eligibleForDraw ds shs (Some sm)))"
  by (auto simp: eligibleForDraw_eq list_ex_iff)

text \<open>
  With the draws of month 0 (won by the pair) and of month 1 (won by Ann): when the draw
  of month 0 is edited, the pair is eligible and Ann is not.
\<close>

theorem eligibleForDraw_exact_witness:
  "ex_draw \<in> set [ex_draw, ex_draw_ann] \<and> d_month ex_draw = 0
   \<and> ex_sh_pair \<in> set (shareholders [ex_ann] [ex_pair])
   \<and> d_winnerType ex_draw = sh_type ex_sh_pair \<and> d_winnerId ex_draw = sh_id ex_sh_pair
   \<and> ex_sh_pair \<in> set (eligibleForDraw [ex_draw, ex_draw_ann] (shareholders [ex_ann] [ex_pair]) (Some 0))
   \<and> ex_sh_ann \<notin> set (eligibleForDraw [ex_draw, ex_draw_ann] (shareholders [ex_ann] [ex_pair]) (Some 0))"
proof -
  let ?ds = "[ex_draw, ex_draw_ann]"
  let ?shs = "shareholders [ex_ann] [ex_pair]"
  have h: "ex_draw \<in> set ?ds \<and> d_month ex_draw = 0 \<and> ex_sh_pair \<in> set ?shs
           \<and> d_winnerType ex_draw = sh_type ex_sh_pair \<and> d_winnerId ex_draw = sh_id ex_sh_pair"
    by (simp add: shareholders_def ex_defs)
  have once: "\<forall>d' \<in> set ?ds. d_winnerType d' = sh_type ex_sh_pair \<and> d_winnerId d' = sh_id ex_sh_pair
                \<longrightarrow> d_month d' = 0"
    by (simp add: ex_defs)
  from eligibleForDraw_exact [of ex_sh_pair ?ds ?shs 0] h once
  have r1: "ex_sh_pair \<in> set (eligibleForDraw ?ds ?shs (Some 0))" by blast
  have "\<exists>d \<in> set ?ds. d_month d \<noteq> 0 \<and> d_winnerType d = sh_type ex_sh_ann
                        \<and> d_winnerId d = sh_id ex_sh_ann"
    by (simp add: ex_defs)
  with eligibleForDraw_exact [of ex_sh_ann ?ds ?shs 0]
  have r2: "ex_sh_ann \<notin> set (eligibleForDraw ?ds ?shs (Some 0))" by blast
  show ?thesis using h r1 r2 by (intro conjI) simp_all
qed

section \<open>Editing a committee keeps allowHalfShare\<close>

lemma foldl_change_keeps_flag:
  "f_allowHalfShare (foldl (CommitteeForm_change (Some c)) st evs) = f_allowHalfShare st"
proof (induction evs arbitrary: st)
  case Nil
  then show ?case by simp
next
  case (Cons e evs)
  have "f_allowHalfShare (CommitteeForm_change (Some c) st e) = f_allowHalfShare st"
    by (cases e) simp_all
  with Cons.IH show ?case by simp
qed

lemma editCommittee_rows:
  assumes srt: "sorted_wrt (<) (map c_id (committees s))" and c: "c \<in> set (committees s)"
  shows "\<exists>c'. c_id c' = c_id c \<and> c_allowHalfShare c' = c_allowHalfShare c \<and>
           committees (editCommittee today c evs s)
             = map (\<lambda>y. if c_id y = c_id c then c' else y) (committees s)"
proof -
  let ?st = "foldl (CommitteeForm_change (Some c)) (CommitteeForm_init today (Some c)) evs"
  have flag: "f_allowHalfShare ?st = c_allowHalfShare c"
    by (simp add: foldl_change_keeps_flag CommitteeForm_init_def)
  show ?thesis
  proof (cases "f_name ?st = [] \<or> f_contribution ?st \<le> 0")
    case True
    then have "committees (editCommittee today c evs s) = committees s"
      by (simp add: editCommittee_def CommitteeForm_handleSubmit_def)
    moreover have "map (\<lambda>y. if c_id y = c_id c then c else y) (committees s) = committees s"
      using same_key_same_row [OF _ _ c, of c_id] srt
      by (intro map_idI) (auto simp: strict_sorted_iff)
    ultimately show ?thesis by auto
  next
    case False
    let ?c' = "c\<lparr>c_name := f_name ?st, c_contribution := f_contribution ?st,
                  c_startDate := f_startDate ?st, c_allowHalfShare := f_allowHalfShare ?st\<rparr>"
    have "committees (editCommittee today c evs s) = put_row c_id ?c' (committees s)"
      using False by (simp add: editCommittee_def CommitteeForm_handleSubmit_def updateCommittee_def)
    also have "\<dots> = map (\<lambda>y. if c_id y = c_id ?c' then ?c' else y) (committees s)"
      using srt c by (rule put_row_replace) simp
    finally have "committees (editCommittee today c evs s)
                    = map (\<lambda>y. if c_id y = c_id c then ?c' else y) (committees s)" by simp
    moreover have "c_id ?c' = c_id c" by simp
    moreover have "c_allowHalfShare ?c' = c_allowHalfShare c" using flag by simp
    ultimately show ?thesis by blast
  qed
qed

lemma edit_step:
  fixes k :: nat and today :: isoDate and evs :: "CommitteeFormEvent list"
  assumes srt: "sorted_wrt (<) (map c_id (committees s))" and c: "c \<in> set (committees s)"
  defines "s1 \<equiv> (case get_row c_id k (committees s) of
                     None \<Rightarrow> s | Some ck \<Rightarrow> editCommittee today ck evs s)"
  shows "sorted_wrt (<) (map c_id (committees s1))
         \<and> (\<exists>c1 \<in> set (committees s1). c_id c1 = c_id c \<and> c_allowHalfShare c1 = c_allowHalfShare c)"
proof (cases "get_row c_id k (committees s)")
  case None
  then have "s1 = s" by (simp add: s1_def)
  with srt c show ?thesis by auto
next
  case (Some ck)
  then have ckin: "ck \<in> set (committees s)" by (auto dest: get_row_in_set)
  have s1: "s1 = editCommittee today ck evs s" using Some by (simp add: s1_def)
  from editCommittee_rows [OF srt ckin, of today evs]
  obtain ck' where id: "c_id ck' = c_id ck" and fl: "c_allowHalfShare ck' = c_allowHalfShare ck"
    and rows: "committees s1 = map (\<lambda>y. if c_id y = c_id ck then ck' else y) (committees s)"
    unfolding s1 by blast
  have d: "distinct (map c_id (committees s))" using srt by (simp add: strict_sorted_iff)
  have "map c_id (committees s1) = map c_id (committees s)"
    unfolding rows using id by (induction "committees s") auto
  with srt have srt1: "sorted_wrt (<) (map c_id (committees s1))" by simp
  let ?c1 = "if c_id c = c_id ck then ck' else c"
  have "?c1 \<in> set (committees s1)" unfolding rows using c by (simp add: image_iff) blast
  moreover have "c_id ?c1 = c_id c" using id by simp
  moreover have "c_allowHalfShare ?c1 = c_allowHalfShare c"
  proof (cases "c_id c = c_id ck")
    case True
    with same_key_same_row [OF d c ckin] have "c = ck" by simp
    with fl True show ?thesis by simp
  next
    case False
    then show ?thesis by simp
  qed
  ultimately show ?thesis using srt1 by blast
qed

text \<open>
  Claim C9. The update operation on a committee is the submit of the edit form, opened on
  a committee of the store. Whatever the change events of an edit session and however
  many sessions follow one another, the committee of a given id stays in the store and
  its \<open>allowHalfShare\<close> keeps the value it had: the checkbox is disabled while editing,
  so the form writes back the flag it was opened with.
\<close>

theorem allowHalfShare_immutable:
  assumes "sorted_wrt (<) (map c_id (committees s))" and "c \<in> set (committees s)"
  shows "\<exists>c'. get_row c_id (c_id c) (committees (editSessions today sessions s)) = Some c'
              \<and> c_allowHalfShare c' = c_allowHalfShare c"
  using assms
proof (induction sessions arbitrary: s c)
  case Nil
  have "distinct (map c_id (committees s))" using Nil.prems(1) by (simp add: strict_sorted_iff)
  then have "get_row c_id (c_id c) (committees s) = Some c"
    using Nil.prems(2) by (rule get_row_Some) simp
  then show ?case by simp
next
  case (Cons session rest)
  obtain k evs where session: "session = (k, evs)" by (cases session)
  let ?s1 = "case get_row c_id k (committees s) of
               None \<Rightarrow> s | Some ck \<Rightarrow> editCommittee today ck evs s"
  from edit_step [OF Cons.prems, where k = k and today = today and evs = evs]
  obtain c1 where srt1: "sorted_wrt (<) (map c_id (committees ?s1))"
    and c1: "c1 \<in> set (committees ?s1)" and id: "c_id c1 = c_id c"
    and fl: "c_allowHalfShare c1 = c_allowHalfShare c" by blast
  from Cons.IH [OF srt1 c1]
  obtain c' where "get_row c_id (c_id c1) (committees (editSessions today rest ?s1)) = Some c'"
    and "c_allowHalfShare c' = c_allowHalfShare c1" by blast
  with id fl session show ?case by simp
qed

text \<open>
  Two edit sessions on the example database: the first renames committee 1, raises its
  contribution and carries a change event of the disabled checkbox; the second renames
  committee 2. Committee 1 is renamed and still allows half shares.
\<close>

theorem allowHalfShare_immutable_witness:
  "sorted_wrt (<) (map c_id (committees ex_store)) \<and> ex_committee \<in> set (committees ex_store)
   \<and> (\<exists>c'. get_row c_id (c_id ex_committee)
              (committees (editSessions (2024, 6, 1)
                 [(1, [NameChanged ''Gamma'', AllowHalfShareChanged False, ContributionChanged 2000]),
                  (2, [NameChanged ''Delta''])] ex_store)) = Some c'
            \<and> c_allowHalfShare c' = c_allowHalfShare ex_committee)
   \<and> get_row c_id 1
        (committees (editSessions (2024, 6, 1)
           [(1, [NameChanged ''Gamma'', AllowHalfShareChanged False, ContributionChanged 2000]),
            (2, [NameChanged ''Delta''])] ex_store))
      = Some \<lparr>c_id = 1, c_name = ''Gamma'', c_contribution = 2000, c_startDate = (2024, 1, 1),
               c_allowHalfShare = True\<rparr>"
proof -
  have h1: "sorted_wrt (<) (map c_id (committees ex_store))" by (simp add: ex_defs)
  have h2: "ex_committee \<in> set (committees ex_store)" by (simp add: ex_defs)
  have ev: "get_row c_id 1
        (committees (editSessions (2024, 6, 1)
           [(1, [NameChanged ''Gamma'', AllowHalfShareChanged False, ContributionChanged 2000]),
            (2, [NameChanged ''Delta''])] ex_store))
      = Some \<lparr>c_id = 1, c_name = ''Gamma'', c_contribution = 2000, c_startDate = (2024, 1, 1),
               c_allowHalfShare = True\<rparr>"
    by (simp add: get_row_def editCommittee_def CommitteeForm_handleSubmit_def
        CommitteeForm_init_def updateCommittee_def ex_defs)
  show ?thesis
    using h1 h2 ev allowHalfShare_immutable [OF h1 h2, of "(2024, 6, 1)"
        "[(1, [NameChanged ''Gamma'', AllowHalfShareChanged False, ContributionChanged 2000]),
          (2, [NameChanged ''Delta''])]"]
    by (intro conjI)
qed

section \<open>Pairing a new Half-share member\<close>





section \<open>Recording a payment twice\<close>







section \<open>Paid or Late\<close>

text \<open>
  Claim C2 says that the due date of month \<open>i\<close> is day 10 of (start month + \<open>i\<close>), so
  that for the start date 2024-01-01 and month 0 a payment dated 2024-01-10 is Paid. The
  code reads the start date with \<open>new Date("2024-01-01")\<close>, which is midnight UTC, and
  then takes its local year and month. In a browser five hours west of Greenwich that
  instant is 31 December 2023, 19:00 (its local day number is that of 31 December 2023,
  one before 1 January 2024): the year read is 2023 and the month index 11, the due date
  is 10 December 2023, and the payment dated 2024-01-10 gets the status Late.
  At UTC, and five and a half hours east of it, the same inputs give Paid for 2024-01-10
  and Late for 2024-01-11. The payment date itself is split into year, month and day and
  built as a local date, which is how the start date would have to be read.
\<close>

theorem paymentStatus_west_of_utc:
  "paymentStatus (- 18000000) (2024, 1, 1) 0 (2024, 1, 10) = Late
   \<and> (newDate_iso (2024, 1, 1) + (- 18000000)) div msPerDay = MakeDay 2023 11 31
   \<and> MakeDay 2023 11 31 = MakeDay 2024 0 1 - 1
   \<and> getFullYear (- 18000000) (newDate_iso (2024, 1, 1)) = 2023
   \<and> getMonth (- 18000000) (newDate_iso (2024, 1, 1)) = 11
   \<and> paymentStatus (- 18000000) (2024, 1, 1) 0 (2023, 12, 10) = Paid
   \<and> paymentStatus 0 (2024, 1, 1) 0 (2024, 1, 10) = Paid
   \<and> paymentStatus 0 (2024, 1, 1) 0 (2024, 1, 11) = Late
   \<and> paymentStatus 19800000 (2024, 1, 1) 0 (2024, 1, 10) = Paid
   \<and> paymentStatus 19800000 (2024, 1, 1) 0 (2024, 1, 11) = Late"
  by code_simp

end
